theory Spec2Isabelle
  imports Main
begin

section \<open>The zip-code search worker: data model\<close>

text \<open>
  The most recent handler of the repository (the variant that talks to MongoDB through the
  driver and keeps its own cache entries) is embedded here. A JavaScript string is a
  \<open>string\<close>; its \<open>length\<close> is the HOL \<open>length\<close> (one \<open>char\<close> per code unit).
  A value that may be \<open>null\<close> or \<open>undefined\<close> is an \<open>option\<close>.
\<close>

record Env =
  MONGODB_URI :: string
  DOMAIN :: string
  CACHE_TTL :: string

text \<open>\<open>type AutoCompleteFlag = 0 | 1\<close>; the flag is kept as the number the code stores.\<close>

record SearchQuery =
  search :: string
  autocomplete :: nat

text \<open>
  Values that travel as JSON. Results read from the cache are whatever \<open>response.json()\<close>
  yields, so the TypeScript annotation \<open>Array<SearchResult>\<close> is not a runtime guarantee and
  the model keeps the full value. Numbers are the integral ones.
\<close>

datatype json =
    JNull
  | JBool bool
  | JNum int
  | JStr string
  | JArr "json list"
  | JObj "(string \<times> json) list"

type_synonym document = "(string \<times> json) list"

type_synonym headers = "(string \<times> string) list"

record Response =
  status :: nat
  body :: "string option"
  headers :: headers

text \<open>
  Of a request the handler reads the method (\<open>request.method\<close>), the parsed query string
  (\<open>url.searchParams\<close>, in order, duplicates kept) and the \<open>origin\<close> header.
\<close>

record Request =
  request_method :: string
  params :: "(string \<times> string) list"
  origin_header :: "string option"

datatype error =
    BadRequest
  | TypeError
  | UnexpectedCall
  | InvalidResponse
  | DatabaseQueryFailed
  | DriverError

text \<open>\<open>detectEdgeCases\<close> returns \<open>null\<close>, or falls off its end and returns \<open>undefined\<close>.\<close>

datatype null_or_undefined = JSNull | JSUndefined

section \<open>JavaScript primitives used by the handler\<close>

text \<open>\<open>URLSearchParams.get\<close>: the first value stored under the name, or \<open>null\<close>.\<close>

definition params_get :: "(string \<times> string) list \<Rightarrow> string \<Rightarrow> string option" where
  "params_get ps name = map_of ps name"

text \<open>Truthiness of \<open>string | null\<close>: \<open>null\<close> and the empty string are falsy.\<close>

fun truthy :: "string option \<Rightarrow> bool" where
  "truthy None = False"
| "truthy (Some s) = (s \<noteq> [])"

text \<open>
  \<open>query?.length\<close> used as a condition: \<open>undefined\<close> for \<open>null\<close> counts like the length 0.
\<close>

fun optional_length :: "string option \<Rightarrow> nat" where
  "optional_length None = 0"
| "optional_length (Some s) = length s"

text \<open>Truthiness of a JSON value: \<open>null\<close>, \<open>false\<close>, \<open>0\<close> and \<open>""\<close> are falsy.\<close>

fun json_truthy :: "json \<Rightarrow> bool" where
  "json_truthy JNull = False"
| "json_truthy (JBool b) = b"
| "json_truthy (JNum n) = (n \<noteq> 0)"
| "json_truthy (JStr s) = (s \<noteq> [])"
| "json_truthy (JArr xs) = True"
| "json_truthy (JObj ms) = True"

subsection \<open>Numbers\<close>

text \<open>
  A JavaScript number is an IEEE double. The numbers the handler meets are \<open>NaN\<close>, the two
  infinities and integers; \<open>Num i\<close> stands for the double whose value is the integer \<open>i\<close>.
  Every integer below \<open>2 ^ 53\<close> in magnitude is a double; a larger one is rounded to the
  nearest double, the tie to the even significand, and to infinity from \<open>2 ^ 1024\<close> on.
\<close>

datatype js_number = NaN | Num int | Infinity | NegInfinity

fun isNaN :: "js_number \<Rightarrow> bool" where
  "isNaN NaN = True"
| "isNaN _ = False"

function bit_length :: "nat \<Rightarrow> nat" where
  "bit_length n = (if n = 0 then 0 else Suc (bit_length (n div 2)))"
  by pat_completeness auto
termination
  by (relation "measure (\<lambda>n. n)") auto

text \<open>The double nearest to a natural number; \<open>None\<close> is infinity.\<close>

definition round_to_double :: "nat \<Rightarrow> nat option" where
  "round_to_double v =
     (if bit_length v \<le> 53 then Some v
      else
        let e = bit_length v - 53;
            q = v div 2 ^ e;
            r = v mod 2 ^ e;
            half = 2 ^ (e - 1);
            q' = (if half < r \<or> (r = half \<and> odd q) then q + 1 else q);
            d = q' * 2 ^ e
        in if 2 ^ 1024 \<le> d then None else Some d)"

subsection \<open>\<open>parseInt(s, 10)\<close>\<close>

text \<open>
  Leading white space is skipped, one sign is read, then the longest run of decimal digits;
  no digit at all gives \<open>NaN\<close>. With radix 10 no \<open>0x\<close> prefix is stripped. The white space
  of the 8-bit range is TAB, LF, VT, FF, CR, SP and NBSP. The result is the double nearest to
  the integer the digits denote, with the sign.
\<close>

definition is_white_space :: "char \<Rightarrow> bool" where
  "is_white_space c = ((of_char c :: nat) \<in> {9, 10, 11, 12, 13, 32, 160})"

definition is_digit :: "char \<Rightarrow> bool" where
  "is_digit c = (48 \<le> (of_char c :: nat) \<and> (of_char c :: nat) \<le> 57)"

definition digit_value :: "char \<Rightarrow> nat" where
  "digit_value c = of_char c - 48"

definition digits_value :: "string \<Rightarrow> nat" where
  "digits_value z = foldl (\<lambda>acc c. 10 * acc + digit_value c) 0 z"

definition parseInt :: "string \<Rightarrow> js_number" where
  "parseInt s =
     (let s1 = dropWhile is_white_space s;
          negative = (case s1 of [] \<Rightarrow> False | c # _ \<Rightarrow> c = CHR ''-'');
          s2 = (case s1 of [] \<Rightarrow> []
                | c # r \<Rightarrow> if c = CHR ''+'' \<or> c = CHR ''-'' then r else s1);
          z = takeWhile is_digit s2
      in if z = [] then NaN
         else (case round_to_double (digits_value z) of
                 None \<Rightarrow> if negative then NegInfinity else Infinity
               | Some d \<Rightarrow> Num (if negative then - int d else int d)))"

subsection \<open>Numbers in template literals\<close>

text \<open>
  \<open>Number::toString\<close>. An integer below \<open>2 ^ 53\<close> prints as its decimal digits. A larger
  double prints with the fewest significant digits that still round to it (the closest such
  decimal, the even one on a tie): padded with zeros when it has at most 21 digits, in
  exponent form beyond.
\<close>

definition digit_char :: "nat \<Rightarrow> char" where
  "digit_char d = char_of (48 + d)"

function nat_to_string :: "nat \<Rightarrow> string" where
  "nat_to_string n =
     (if n < 10 then [digit_char n] else nat_to_string (n div 10) @ [digit_char (n mod 10)])"
  by pat_completeness auto
termination
  by (relation "measure (\<lambda>n. n)") auto

text \<open>
  With \<open>k\<close> significant digits the decimals next to \<open>v\<close> are the multiples \<open>lo\<close> and
  \<open>hi\<close> of the power of ten below; each counts if it rounds to \<open>v\<close>.
\<close>

definition shortest_candidates :: "nat \<Rightarrow> nat \<Rightarrow> nat list" where
  "shortest_candidates v k =
     (let p = 10 ^ (length (nat_to_string v) - k);
          lo = (v div p) * p;
          hi = lo + p;
          lo_ok = (round_to_double lo = Some v);
          hi_ok = (round_to_double hi = Some v)
      in if lo_ok \<and> hi_ok
         then (if v - lo < hi - v then [lo]
               else if hi - v < v - lo then [hi]
               else if even (lo div p) then [lo] else [hi])
         else if lo_ok then [lo]
         else if hi_ok then [hi]
         else [])"

definition shortest_decimal :: "nat \<Rightarrow> nat" where
  "shortest_decimal v =
     (case concat (map (shortest_candidates v) [1 ..< Suc (length (nat_to_string v))]) of
        [] \<Rightarrow> v
      | c # _ \<Rightarrow> c)"

definition strip_zeros :: "string \<Rightarrow> string" where
  "strip_zeros ds = rev (dropWhile (\<lambda>c. c = CHR ''0'') (rev ds))"

definition double_to_string :: "nat \<Rightarrow> string" where
  "double_to_string v =
     (if v < 2 ^ 53 then nat_to_string v
      else
        let ds = nat_to_string (shortest_decimal v);
            n = length ds
        in if n \<le> 21 then ds
           else (case strip_zeros ds of
                   [] \<Rightarrow> ds
                 | [c] \<Rightarrow> [c]
                 | c # cs \<Rightarrow> c # CHR ''.'' # cs) @ ''e+'' @ nat_to_string (n - 1))"

definition number_to_string :: "js_number \<Rightarrow> string" where
  "number_to_string x =
     (case x of
        NaN \<Rightarrow> ''NaN''
      | Infinity \<Rightarrow> ''Infinity''
      | NegInfinity \<Rightarrow> ''-Infinity''
      | Num i \<Rightarrow> if i < 0 then CHR ''-'' # double_to_string (nat (- i))
                 else double_to_string (nat i))"

subsection \<open>\<open>JSON.stringify\<close>\<close>

definition hex_char :: "nat \<Rightarrow> char" where
  "hex_char d = (if d < 10 then char_of (48 + d) else char_of (87 + d))"

definition quote_char :: "char \<Rightarrow> string" where
  "quote_char c =
     (let n = (of_char c :: nat) in
      if n = 34 then [CHR 0x5C, CHR 0x22]
      else if n = 92 then [CHR 0x5C, CHR 0x5C]
      else if n = 8 then [CHR 0x5C, CHR ''b'']
      else if n = 9 then [CHR 0x5C, CHR ''t'']
      else if n = 10 then [CHR 0x5C, CHR ''n'']
      else if n = 12 then [CHR 0x5C, CHR ''f'']
      else if n = 13 then [CHR 0x5C, CHR ''r'']
      else if n < 32 then [CHR 0x5C, CHR ''u'', CHR ''0'', CHR ''0'', hex_char (n div 16), hex_char (n mod 16)]
      else [c])"

definition quote_string :: "string \<Rightarrow> string" where
  "quote_string s = [CHR 0x22] @ concat (map quote_char s) @ [CHR 0x22]"

fun stringify :: "json \<Rightarrow> string"
  and stringify_elements :: "json list \<Rightarrow> string"
  and stringify_members :: "(string \<times> json) list \<Rightarrow> string" where
  "stringify JNull = ''null''"
| "stringify (JBool b) = (if b then ''true'' else ''false'')"
| "stringify (JNum n) = number_to_string (Num n)"
| "stringify (JStr s) = quote_string s"
| "stringify (JArr xs) = ''['' @ stringify_elements xs @ '']''"
| "stringify (JObj ms) = ''{'' @ stringify_members ms @ ''}''"
| "stringify_elements [] = []"
| "stringify_elements [x] = stringify x"
| "stringify_elements (x # y # ys) = stringify x @ '','' @ stringify_elements (y # ys)"
| "stringify_members [] = []"
| "stringify_members [(k, v)] = quote_string k @ '':'' @ stringify v"
| "stringify_members ((k, v) # m # ms) =
     quote_string k @ '':'' @ stringify v @ '','' @ stringify_members (m # ms)"

section \<open>The platform and the database driver\<close>

text \<open>
  The handler reaches three things it does not own: the JSON parser behind
  \<open>response.json()\<close>, the cache of the edge platform (\<open>caches.default\<close>) and the MongoDB
  driver. They are parameters of the model. Of the driver, the model fixes what the chained
  cursor calls mean (\<open>project\<close> keeps or drops top-level fields, \<open>limit\<close> truncates) and
  leaves open which documents the server matches and which calls fail.
\<close>

datatype find_filter = RegexMatch string string string

record Mongo =
  uri_ok :: "string \<Rightarrow> bool"
  connect_ok :: "string \<Rightarrow> bool"
  run_find :: "string \<Rightarrow> string \<Rightarrow> find_filter \<Rightarrow> document list option"
  close_ok :: bool

record World =
  json_parse :: "string \<Rightarrow> json option"
  cache_match :: "string \<Rightarrow> Response option"
  mongo :: Mongo

text \<open>
  A projection document lists fields with 1 (keep) or 0 (drop). If some field is kept the
  projection is an inclusion: only the kept fields survive, and \<open>_id\<close> too unless it is
  listed with 0. Otherwise only the fields listed with 0 are dropped.
\<close>

definition project_field :: "(string \<times> nat) list \<Rightarrow> string \<Rightarrow> bool" where
  "project_field spec k =
     (if \<exists>p \<in> set spec. snd p \<noteq> 0
      then (case map_of spec k of
              Some v \<Rightarrow> v \<noteq> 0
            | None \<Rightarrow> k = ''_id'')
      else map_of spec k = None)"

definition project :: "(string \<times> nat) list \<Rightarrow> document \<Rightarrow> document" where
  "project spec d = filter (\<lambda>kv. project_field spec (fst kv)) d"

text \<open>\<open>cursor.limit(n)\<close>: at most \<open>n\<close> documents; \<open>limit(0)\<close> means no limit.\<close>

definition cursor_limit :: "nat \<Rightarrow> 'a list \<Rightarrow> 'a list" where
  "cursor_limit n xs = (if n = 0 then xs else take n xs)"

section \<open>The functions of the worker\<close>

definition buildResponse :: "nat \<Rightarrow> string option \<Rightarrow> headers option \<Rightarrow> Response" where
  "buildResponse st message hs =
     \<lparr> status = st, body = message,
       headers = (case hs of None \<Rightarrow> [(''content-type'', ''text/plain'')] | Some h \<Rightarrow> h) \<rparr>"

definition setCorsHeaders :: "string \<Rightarrow> headers" where
  "setCorsHeaders origin =
     [(''access-control-allow-origin'', origin),
      (''access-control-allow-methods'', ''GET, HEAD, OPTIONS''),
      (''access-control-max-age'', ''86400'')]"

definition buildResultsResponse :: "json \<Rightarrow> string option \<Rightarrow> js_number \<Rightarrow> Response" where
  "buildResultsResponse results origin cacheTtl =
     (let hs = [(''content-type'', ''application/json''),
                (''cache-control'', ''public, maxage='' @ number_to_string cacheTtl @ '', immutable'')]
               @ (case origin of
                    None \<Rightarrow> []
                  | Some orig \<Rightarrow> if orig \<noteq> [] then setCorsHeaders orig else [])
      in buildResponse 200 (Some (stringify (JObj [(''results'', results)]))) (Some hs))"

text \<open>\<open>response.json()\<close>: a response without a body, or with a body that is not JSON, rejects.\<close>

definition response_json :: "(string \<Rightarrow> json option) \<Rightarrow> Response \<Rightarrow> json option" where
  "response_json parse r = (case body r of None \<Rightarrow> None | Some text \<Rightarrow> parse text)"

definition processResults :: "(string \<Rightarrow> json option) \<Rightarrow> Response option \<Rightarrow> error + json" where
  "processResults parse response =
     (case response of
        None \<Rightarrow> Inl UnexpectedCall
      | Some r \<Rightarrow>
          (case response_json parse r of
             None \<Rightarrow> Inl InvalidResponse
           | Some j \<Rightarrow> Inr (if json_truthy j then j else JArr [])))"

text \<open>
  \<open>entry\<close> is \<open>query\<close> when \<open>query?.length\<close> is truthy and \<open>search\<close> otherwise; reading
  \<open>.length\<close> of a \<open>null\<close> entry would be a \<open>TypeError\<close>.
\<close>

definition detectEdgeCases :: "(string \<times> string) list \<Rightarrow> error + null_or_undefined" where
  "detectEdgeCases ps =
     (let query = params_get ps ''query'';
          search = params_get ps ''search''
      in if \<not> truthy query \<and> \<not> truthy search then Inl BadRequest
         else if truthy query \<and> truthy search then Inl BadRequest
         else (case (if optional_length query \<noteq> 0 then query else search) of
                 None \<Rightarrow> Inl TypeError
               | Some entry \<Rightarrow> if length entry < 3 then Inr JSNull else Inr JSUndefined))"

definition hasValidOrigin :: "Request \<Rightarrow> Env \<Rightarrow> bool" where
  "hasValidOrigin request env = (origin_header request = Some (DOMAIN env))"

definition handleOptions :: "Request \<Rightarrow> Env \<Rightarrow> Response" where
  "handleOptions request env =
     (if hasValidOrigin request env
      then \<lparr> status = 200, body = None, headers = setCorsHeaders (DOMAIN env) \<rparr>
      else \<lparr> status = 200, body = None, headers = setCorsHeaders (DOMAIN env) \<rparr>)"

text \<open>
  \<open>new MongoClient\<close> sits before the \<open>try\<close>, so a rejected connection string escapes as the
  driver's own error. A failure of \<open>connect\<close> or of the query becomes
  \<open>Database query failed\<close>. \<open>client.close()\<close> runs in \<open>finally\<close>; if it throws, its error
  replaces the outcome of the \<open>try\<close>.
\<close>

definition searchZipCodes :: "Mongo \<Rightarrow> string \<Rightarrow> bool \<Rightarrow> string \<Rightarrow> error + document list" where
  "searchZipCodes client searchTerm isAutocomplete mongoUri =
     (if \<not> uri_ok client mongoUri then Inl DriverError
      else
        let outcome =
          (if \<not> connect_ok client mongoUri then Inl DatabaseQueryFailed
           else
             let query = RegexMatch ''name'' searchTerm ''i'';
                 limit = (if isAutocomplete then 10 else 50)
             in (case run_find client ''zip'' ''zip'' query of
                   None \<Rightarrow> Inl DatabaseQueryFailed
                 | Some found \<Rightarrow>
                     Inr (cursor_limit limit
                            (map (project [(''_id'', 0), (''name'', 1), (''zip'', 1)]) found))))
        in if close_ok client then outcome else Inl DriverError)"

definition getCacheKey :: "SearchQuery \<Rightarrow> string" where
  "getCacheKey searchQuery = ''zip-search:'' @ search searchQuery"

section \<open>The request handler\<close>

text \<open>
  What the handler does to the outside is recorded, in order: the cache lookup, the call of
  \<open>searchZipCodes\<close> with its arguments, and the \<open>cache.put\<close> handed to \<open>ctx.waitUntil\<close>.
\<close>

datatype event =
    CacheMatch string
  | BackendSearch string bool string
  | CachePut string Response

text \<open>
  \<open>(query ?? search) as string\<close>: \<open>query\<close> unless it is \<open>null\<close>. Both \<open>null\<close> cannot
  get past \<open>detectEdgeCases\<close>; the template literal would print \<open>null\<close> there.
\<close>

definition buildSearchQuery :: "(string \<times> string) list \<Rightarrow> SearchQuery" where
  "buildSearchQuery ps =
     (let query = params_get ps ''query'';
          search = params_get ps ''search''
      in \<lparr> search = (case query of
                       Some q \<Rightarrow> q
                     | None \<Rightarrow> (case search of Some s \<Rightarrow> s | None \<Rightarrow> ''null'')),
           autocomplete = (if query \<noteq> None then 1 else 0) \<rparr>)"

definition cacheTtlOf :: "Env \<Rightarrow> js_number" where
  "cacheTtlOf env =
     (let cacheTtlValue = parseInt (CACHE_TTL env)
      in if isNaN cacheTtlValue then Num 300 else cacheTtlValue)"

definition results_json :: "document list \<Rightarrow> json" where
  "results_json ds = JArr (map JObj ds)"

definition fetch :: "World \<Rightarrow> Request \<Rightarrow> Env \<Rightarrow> (error + Response) \<times> event list" where
  "fetch w request env =
     (if request_method request = ''OPTIONS'' then (Inr (handleOptions request env), [])
      else if request_method request \<notin> set [''GET'', ''HEAD'']
      then (Inr (buildResponse 405 (Some ''Method Not Allowed'') None), [])
      else
        let ps = params request;
            origin = (if hasValidOrigin request env then Some (DOMAIN env) else None)
        in if request_method request = ''HEAD''
           then (Inr (buildResponse 200 None (Some (setCorsHeaders (DOMAIN env)))), [])
           else
             let cacheTtl = cacheTtlOf env
             in (case detectEdgeCases ps of
                   Inl e \<Rightarrow> (Inr (buildResponse 400 (Some ''Bad Request'') None), [])
                 | Inr JSNull \<Rightarrow> (Inr (buildResultsResponse (JArr []) origin cacheTtl), [])
                 | Inr JSUndefined \<Rightarrow>
                     let searchQuery = buildSearchQuery ps;
                         cacheKey = ''https://cache.internal/'' @ getCacheKey searchQuery
                     in (case cache_match w cacheKey of
                           None \<Rightarrow>
                             (case searchZipCodes (mongo w) (search searchQuery)
                                     (autocomplete searchQuery = 1) (MONGODB_URI env) of
                                Inr results \<Rightarrow>
                                  let response = buildResultsResponse (results_json results) origin cacheTtl
                                  in (Inr response,
                                      [CacheMatch cacheKey,
                                       BackendSearch (search searchQuery)
                                         (autocomplete searchQuery = 1) (MONGODB_URI env),
                                       CachePut cacheKey response])
                              | Inl e \<Rightarrow>
                                  (Inr (buildResponse 500 (Some ''Internal Server Error'') None),
                                   [CacheMatch cacheKey,
                                    BackendSearch (search searchQuery)
                                      (autocomplete searchQuery = 1) (MONGODB_URI env)]))
                         | Some cachedResponse \<Rightarrow>
                             (case processResults (json_parse w) (Some cachedResponse) of
                                Inl e \<Rightarrow> (Inl e, [CacheMatch cacheKey])
                              | Inr results \<Rightarrow>
                                  (Inr (buildResultsResponse results origin cacheTtl),
                                   [CacheMatch cacheKey])))))"

section \<open>Notions of the specification\<close>

text \<open>
  A valid non-negative integer string is a non-empty run of decimal digits; the number it
  denotes is read positionally.
\<close>

definition valid_nonneg_integer :: "string \<Rightarrow> bool" where
  "valid_nonneg_integer s = (s \<noteq> [] \<and> list_all is_digit s)"

definition decimal_value :: "string \<Rightarrow> nat" where
  "decimal_value s = (\<Sum>i < length s. digit_value (s ! i) * 10 ^ (length s - Suc i))"

text \<open>
  A string has a leading integer if, after its leading white space and at most one sign,
  a decimal digit comes next.
\<close>

definition leading_integer :: "string \<Rightarrow> bool" where
  "leading_integer s =
     (case dropWhile is_white_space s of
        [] \<Rightarrow> False
      | c # r \<Rightarrow>
          if c = CHR ''+'' \<or> c = CHR ''-''
          then (case r of [] \<Rightarrow> False | d # _ \<Rightarrow> is_digit d)
          else is_digit c)"

text \<open>A response carries an access-control header if one of its header names starts so.\<close>

definition has_access_control_header :: "Response \<Rightarrow> bool" where
  "has_access_control_header r =
     list_ex (\<lambda>kv. take 15 (fst kv) = ''access-control-'') (headers r)"

text \<open>The events that contact the backend, and those that store into the cache.\<close>

fun is_backend_event :: "event \<Rightarrow> bool" where
  "is_backend_event (BackendSearch t a u) = True"
| "is_backend_event _ = False"


section \<open>Sample inputs\<close>

definition sample_env :: Env where
  "sample_env =
     \<lparr> MONGODB_URI = ''mongodb://db.example/zip'', DOMAIN = ''https://zip.example'',
       CACHE_TTL = ''600'' \<rparr>"

definition sample_documents :: "document list" where
  "sample_documents =
     [[(''_id'', JNum 1), (''name'', JStr ''Springfield''), (''zip'', JStr ''01001''),
       (''population'', JNum 153606)],
      [(''_id'', JNum 2), (''zip'', JStr ''62701''), (''name'', JStr ''Springfield'')]]"

definition sample_mongo :: Mongo where
  "sample_mongo =
     \<lparr> uri_ok = (\<lambda>uri. True), connect_ok = (\<lambda>uri. True),
       run_find = (\<lambda>db coll q. Some sample_documents), close_ok = True \<rparr>"

definition crowded_mongo :: Mongo where
  "crowded_mongo =
     \<lparr> uri_ok = (\<lambda>uri. True), connect_ok = (\<lambda>uri. True),
       run_find = (\<lambda>db coll q. Some (replicate 12 (hd sample_documents))), close_ok = True \<rparr>"

definition unreachable_mongo :: Mongo where
  "unreachable_mongo =
     \<lparr> uri_ok = (\<lambda>uri. True), connect_ok = (\<lambda>uri. False),
       run_find = (\<lambda>db coll q. None), close_ok = True \<rparr>"

text \<open>A platform whose cache is empty, with a database that answers and with one that does not.\<close>

definition cold_world :: World where
  "cold_world =
     \<lparr> json_parse = (\<lambda>text. None), cache_match = (\<lambda>key. None), mongo = sample_mongo \<rparr>"

definition failing_world :: World where
  "failing_world =
     \<lparr> json_parse = (\<lambda>text. None), cache_match = (\<lambda>key. None), mongo = unreachable_mongo \<rparr>"

text \<open>
  The entry that a first \<open>GET /?search=springfield\<close> stores, and a platform whose cache
  holds it and whose parser reads its body back.
\<close>

definition sample_entry :: Response where
  "sample_entry =
     buildResultsResponse
       (results_json [[(''name'', JStr ''Springfield''), (''zip'', JStr ''01001'')],
                      [(''zip'', JStr ''62701''), (''name'', JStr ''Springfield'')]])
       None (Num 600)"


definition get_request :: "(string \<times> string) list \<Rightarrow> string option \<Rightarrow> Request" where
  "get_request ps orig = \<lparr> request_method = ''GET'', params = ps, origin_header = orig \<rparr>"

section \<open>The handler on a GET request\<close>

text \<open>
  For a GET request the dispatch on the method is gone and the handler is its validation,
  cache and backend part.
\<close>

lemma fetch_get:
  assumes "request_method request = ''GET''"
  shows "fetch w request env =
     (case detectEdgeCases (params request) of
        Inl e \<Rightarrow> (Inr (buildResponse 400 (Some ''Bad Request'') None), [])
      | Inr JSNull \<Rightarrow>
          (Inr (buildResultsResponse (JArr [])
                  (if hasValidOrigin request env then Some (DOMAIN env) else None) (cacheTtlOf env)), [])
      | Inr JSUndefined \<Rightarrow>
          (let searchQuery = buildSearchQuery (params request);
               cacheKey = ''https://cache.internal/'' @ getCacheKey searchQuery;
               origin = (if hasValidOrigin request env then Some (DOMAIN env) else None)
           in (case cache_match w cacheKey of
                 None \<Rightarrow>
                   (case searchZipCodes (mongo w) (search searchQuery)
                           (autocomplete searchQuery = 1) (MONGODB_URI env) of
                      Inr results \<Rightarrow>
                        (Inr (buildResultsResponse (results_json results) origin (cacheTtlOf env)),
                         [CacheMatch cacheKey,
                          BackendSearch (search searchQuery) (autocomplete searchQuery = 1) (MONGODB_URI env),
                          CachePut cacheKey (buildResultsResponse (results_json results) origin (cacheTtlOf env))])
                    | Inl e \<Rightarrow>
                        (Inr (buildResponse 500 (Some ''Internal Server Error'') None),
                         [CacheMatch cacheKey,
                          BackendSearch (search searchQuery) (autocomplete searchQuery = 1) (MONGODB_URI env)]))
               | Some cachedResponse \<Rightarrow>
                   (case processResults (json_parse w) (Some cachedResponse) of
                      Inl e \<Rightarrow> (Inl e, [CacheMatch cacheKey])
                    | Inr results \<Rightarrow>
                        (Inr (buildResultsResponse results origin (cacheTtlOf env)),
                         [CacheMatch cacheKey])))))"
  using assms unfolding fetch_def Let_def
  by (simp split del: if_split cong: sum.case_cong null_or_undefined.case_cong option.case_cong)

lemma buildResultsResponse_status: "status (buildResultsResponse results origin ttl) = 200"
  by (simp add: buildResultsResponse_def buildResponse_def)

lemma empty_results_body:
  "body (buildResultsResponse (JArr []) origin ttl) = Some ''{\"results\":[]}''"
  by (simp add: buildResultsResponse_def buildResponse_def quote_string_def quote_char_def)

section \<open>Validation\<close>

lemma detectEdgeCases_bad:
  assumes "(\<not> truthy (params_get ps ''query'') \<and> \<not> truthy (params_get ps ''search''))
         \<or> (truthy (params_get ps ''query'') \<and> truthy (params_get ps ''search''))"
  shows "detectEdgeCases ps = Inl BadRequest"
  using assms by (auto simp: detectEdgeCases_def Let_def)

lemma detectEdgeCases_short:
  assumes "(params_get ps ''query'' = Some v \<and> params_get ps ''search'' = None)
         \<or> (params_get ps ''query'' = None \<and> params_get ps ''search'' = Some v)"
    and "v \<noteq> []" and "length v < 3"
  shows "detectEdgeCases ps = Inr JSNull"
  using assms by (auto simp: detectEdgeCases_def Let_def)

text \<open>
  Claim C1, as the code has it. \<open>detectEdgeCases\<close> tests \<open>query\<close> and \<open>search\<close> for
  truthiness, so an empty value counts as a missing one. A GET request in which both
  parameters are absent or empty, and a GET request in which both are present and
  non-empty, is answered with status 400, and nothing outside the handler is touched: no
  cache lookup, no search, no store.
\<close>

theorem bad_request_when_none_or_both_given:
  assumes "request_method request = ''GET''"
    and "(\<not> truthy (params_get (params request) ''query'')
            \<and> \<not> truthy (params_get (params request) ''search''))
         \<or> (truthy (params_get (params request) ''query'')
            \<and> truthy (params_get (params request) ''search''))"
  shows "\<exists>r. fetch w request env = (Inr r, []) \<and> status r = 400"
  using assms(1) detectEdgeCases_bad[OF assms(2)]
  by (simp add: fetch_get buildResponse_def)

text \<open>The theorem at a request without parameters and at one with both.\<close>

theorem bad_request_when_none_or_both_given_witness:
  "request_method (get_request [] None) = ''GET''
   \<and> \<not> truthy (params_get (params (get_request [] None)) ''query'')
   \<and> \<not> truthy (params_get (params (get_request [] None)) ''search'')
   \<and> (\<exists>r. fetch cold_world (get_request [] None) sample_env = (Inr r, []) \<and> status r = 400)
   \<and> truthy (params_get (params (get_request [(''query'', ''spring''), (''search'', ''field'')] None)) ''query'')
   \<and> truthy (params_get (params (get_request [(''query'', ''spring''), (''search'', ''field'')] None)) ''search'')
   \<and> (\<exists>r. fetch cold_world (get_request [(''query'', ''spring''), (''search'', ''field'')] None)
              sample_env = (Inr r, []) \<and> status r = 400)"
  using bad_request_when_none_or_both_given[of "get_request [] None" cold_world sample_env]
    bad_request_when_none_or_both_given[of
      "get_request [(''query'', ''spring''), (''search'', ''field'')] None" cold_world sample_env]
  by (simp add: get_request_def params_get_def)

text \<open>
  Claim C1 as stated fails on \<open>GET /?query=&search=springfield\<close>: both parameters are
  present, yet the answer is a 200 and the backend has been searched.
\<close>

theorem both_present_not_rejected:
  "request_method (get_request [(''query'', ''''), (''search'', ''springfield'')] None) = ''GET''
   \<and> params_get (params (get_request [(''query'', ''''), (''search'', ''springfield'')] None)) ''query'' \<noteq> None
   \<and> params_get (params (get_request [(''query'', ''''), (''search'', ''springfield'')] None)) ''search'' \<noteq> None
   \<and> map_sum id status
        (fst (fetch cold_world (get_request [(''query'', ''''), (''search'', ''springfield'')] None)
                sample_env)) = Inr 200
   \<and> list_ex is_backend_event
        (snd (fetch cold_world (get_request [(''query'', ''''), (''search'', ''springfield'')] None)
                sample_env))"
  by (simp add: fetch_def get_request_def params_get_def detectEdgeCases_def cold_world_def
      sample_env_def sample_mongo_def searchZipCodes_def buildSearchQuery_def getCacheKey_def
      buildResultsResponse_def buildResponse_def Let_def)

text \<open>
  Claim C2, as the code has it. A GET request that carries exactly one of \<open>query\<close> and
  \<open>search\<close>, with a value of length 1 or 2, is answered with status 200 and the body
  \<open>{"results":[]}\<close>; the cache is not consulted and the backend is not called.
\<close>

theorem short_term_gives_empty_results:
  assumes "request_method request = ''GET''"
    and "(params_get (params request) ''query'' = Some v
            \<and> params_get (params request) ''search'' = None)
         \<or> (params_get (params request) ''query'' = None
            \<and> params_get (params request) ''search'' = Some v)"
    and "v \<noteq> []" and "length v < 3"
  shows "\<exists>r. fetch w request env = (Inr r, []) \<and> status r = 200
           \<and> body r = Some ''{\"results\":[]}''"
  using assms(1) detectEdgeCases_short[OF assms(2,3,4)]
  by (simp add: fetch_get empty_results_body buildResultsResponse_status)

text \<open>The theorem at \<open>GET /?search=ab\<close>.\<close>

theorem short_term_gives_empty_results_witness:
  "request_method (get_request [(''search'', ''ab'')] None) = ''GET''
   \<and> params_get (params (get_request [(''search'', ''ab'')] None)) ''query'' = None
   \<and> params_get (params (get_request [(''search'', ''ab'')] None)) ''search'' = Some ''ab''
   \<and> ''ab'' \<noteq> [] \<and> length ''ab'' < (3::nat)
   \<and> (\<exists>r. fetch cold_world (get_request [(''search'', ''ab'')] None) sample_env = (Inr r, [])
         \<and> status r = 200 \<and> body r = Some ''{\"results\":[]}'')"
  using short_term_gives_empty_results[of "get_request [(''search'', ''ab'')] None" "''ab''"
      cold_world sample_env]
  by (simp add: get_request_def params_get_def)

text \<open>
  Claim C2 as stated fails on \<open>GET /?query=\<close>: exactly one parameter is present, its value has
  length 0, and the answer is a 400.
\<close>

theorem empty_term_is_bad_request:
  "request_method (get_request [(''query'', '''')] None) = ''GET''
   \<and> params_get (params (get_request [(''query'', '''')] None)) ''query'' = Some ''''
   \<and> params_get (params (get_request [(''query'', '''')] None)) ''search'' = None
   \<and> length '''' < (3::nat)
   \<and> map_sum id status (fst (fetch cold_world (get_request [(''query'', '''')] None) sample_env))
       = Inr 400"
  by (simp add: fetch_def get_request_def params_get_def detectEdgeCases_def buildResponse_def
      Let_def)

text \<open>
  Claim C10. On \<open>GET /?query=&search=springfield\<close> validation passes: \<open>detectEdgeCases\<close>
  takes the \<open>search\<close> value as its entry and returns \<open>undefined\<close>, and the request is flagged
  as autocomplete. The search term the handler then builds with \<open>query ?? search\<close> is the
  empty \<open>query\<close> value, not the \<open>search\<close> value: the cache is asked for \<open>zip-search:\<close> and
  the backend is searched for the empty string.
\<close>

theorem empty_query_is_the_term_searched:
  "detectEdgeCases [(''query'', ''''), (''search'', ''springfield'')] = Inr JSUndefined
   \<and> buildSearchQuery [(''query'', ''''), (''search'', ''springfield'')]
       = \<lparr> search = '''', autocomplete = 1 \<rparr>
   \<and> take 2 (snd (fetch cold_world
                 (get_request [(''query'', ''''), (''search'', ''springfield'')] None) sample_env))
       = [CacheMatch ''https://cache.internal/zip-search:'',
          BackendSearch '''' True ''mongodb://db.example/zip'']"
  by (simp add: fetch_def get_request_def params_get_def detectEdgeCases_def cold_world_def
      sample_env_def sample_mongo_def searchZipCodes_def buildSearchQuery_def getCacheKey_def
      Let_def)

section \<open>The cache key\<close>

text \<open>
  Claim C4. The cache key is a function of the search term alone: two search queries with
  the same term have the same key, whatever their autocomplete flags, and the key is the
  prefix \<open>zip-search:\<close> followed by the term.
\<close>

theorem cache_key_of_term_alone:
  assumes "search a = search b"
  shows "getCacheKey a = getCacheKey b \<and> getCacheKey a = ''zip-search:'' @ search a"
  using assms by (simp add: getCacheKey_def)

text \<open>The theorem at the term \<open>springfield\<close>, once flagged and once not.\<close>

theorem cache_key_of_term_alone_witness:
  "search \<lparr> search = ''springfield'', autocomplete = 1 \<rparr>
     = search \<lparr> search = ''springfield'', autocomplete = 0 \<rparr>
   \<and> getCacheKey \<lparr> search = ''springfield'', autocomplete = 1 \<rparr>
       = getCacheKey \<lparr> search = ''springfield'', autocomplete = 0 \<rparr>
   \<and> getCacheKey \<lparr> search = ''springfield'', autocomplete = 1 \<rparr> = ''zip-search:springfield''"
  using cache_key_of_term_alone[of "\<lparr> search = ''springfield'', autocomplete = 1 \<rparr>"
      "\<lparr> search = ''springfield'', autocomplete = 0 \<rparr>"]
  by force

section \<open>OPTIONS\<close>

text \<open>
  Claim C9. Two OPTIONS requests that differ only in their \<open>origin\<close> header (one of them may
  have none) get the same response, from \<open>handleOptions\<close> and from the handler as a whole;
  the response carries the CORS headers, and its \<open>access-control-allow-origin\<close> is the
  configured domain.
\<close>

theorem options_response_ignores_origin:
  "handleOptions (request\<lparr>origin_header := oa\<rparr>) env
     = handleOptions (request\<lparr>origin_header := ob\<rparr>) env
   \<and> map_of (headers (handleOptions request env)) ''access-control-allow-origin''
       = Some (DOMAIN env)
   \<and> set (setCorsHeaders (DOMAIN env)) \<subseteq> set (headers (handleOptions request env))
   \<and> fetch w (request\<lparr>request_method := ''OPTIONS'', origin_header := oa\<rparr>) env
       = fetch w (request\<lparr>request_method := ''OPTIONS'', origin_header := ob\<rparr>) env
   \<and> fetch w (request\<lparr>request_method := ''OPTIONS''\<rparr>) env = (Inr (handleOptions request env), [])"
  by (simp add: handleOptions_def fetch_def setCorsHeaders_def)

text \<open>The theorem at a foreign origin and at no origin.\<close>

theorem options_response_ignores_origin_witness:
  "handleOptions ((get_request [] None)\<lparr>origin_header := Some ''https://evil.example''\<rparr>) sample_env
     = handleOptions ((get_request [] None)\<lparr>origin_header := None\<rparr>) sample_env
   \<and> map_of (headers (handleOptions (get_request [] None) sample_env))
        ''access-control-allow-origin'' = Some ''https://zip.example''"
  using options_response_ignores_origin[where request = "get_request [] None"
      and oa = "Some ''https://evil.example''" and env = sample_env and ob = None
      and w = cold_world]
  by (simp add: sample_env_def)

section \<open>Origin and CORS headers on the JSON response\<close>

lemma cors_of_results_response:
  "has_access_control_header (buildResultsResponse results origin ttl)
     = (case origin of None \<Rightarrow> False | Some d \<Rightarrow> d \<noteq> [])"
  by (simp add: has_access_control_header_def buildResultsResponse_def buildResponse_def
      setCorsHeaders_def split: option.split)

lemma headers_of_results_response:
  "d \<noteq> [] \<Longrightarrow> headers (buildResultsResponse results (Some d) ttl)
     = [(''content-type'', ''application/json''),
        (''cache-control'', ''public, maxage='' @ number_to_string ttl @ '', immutable'')]
       @ setCorsHeaders d"
  by (simp add: buildResultsResponse_def buildResponse_def)

lemma cache_control_of_results_response:
  "map_of (headers (buildResultsResponse results origin ttl)) ''cache-control''
     = Some (''public, maxage='' @ number_to_string ttl @ '', immutable'')"
  by (simp add: buildResultsResponse_def buildResponse_def)

lemma processResults_hit:
  "processResults parse (Some c) =
     (case response_json parse c of
        None \<Rightarrow> Inl InvalidResponse
      | Some j \<Rightarrow> Inr (if json_truthy j then j else JArr []))"
  by (simp add: processResults_def)

text \<open>Every 200 answer to a GET request is built by \<open>buildResultsResponse\<close>.\<close>

lemma fetch_get_200:
  assumes "request_method request = ''GET''" and "fst (fetch w request env) = Inr resp"
    and "status resp = 200"
  shows "\<exists>results. resp = buildResultsResponse results
           (if hasValidOrigin request env then Some (DOMAIN env) else None) (cacheTtlOf env)"
  using assms
  by (auto simp: fetch_get Let_def buildResponse_def processResults_hit
      split: sum.splits null_or_undefined.splits option.splits)

lemma round_to_double_600: "round_to_double 600 = Some 600"
  by (simp add: round_to_double_def)

lemma sample_ttl: "cacheTtlOf sample_env = Num 600"
  by (simp add: cacheTtlOf_def sample_env_def parseInt_def is_white_space_def is_digit_def
      digits_value_def digit_value_def round_to_double_600 Let_def)

text \<open>
  Claim C6. Take a GET request that is answered with the 200 JSON response, where the
  configured domain is not the empty string or the request's \<open>origin\<close> header is not the
  empty string (a request carries a non-empty \<open>origin\<close> or none). The response has
  access-control headers if and only if the \<open>origin\<close> header equals the configured
  domain; then they are the three headers of \<open>setCorsHeaders\<close> for the domain. When the
  header differs or is absent, the response has no access-control header.
\<close>

theorem cors_headers_iff_origin_matches:
  assumes "request_method request = ''GET''" and "fst (fetch w request env) = Inr resp"
    and "status resp = 200"
    and "DOMAIN env \<noteq> [] \<or> origin_header request \<noteq> Some []"
  shows "(has_access_control_header resp \<longleftrightarrow> origin_header request = Some (DOMAIN env))
       \<and> (origin_header request = Some (DOMAIN env)
            \<longrightarrow> set (setCorsHeaders (DOMAIN env)) \<subseteq> set (headers resp))"
proof -
  obtain results where r: "resp = buildResultsResponse results
      (if hasValidOrigin request env then Some (DOMAIN env) else None) (cacheTtlOf env)"
    using fetch_get_200[OF assms(1,2,3)] by blast
  show ?thesis
    using assms(4)
    by (auto simp: r cors_of_results_response hasValidOrigin_def headers_of_results_response)
qed

text \<open>
  The theorem at \<open>GET /?search=ab\<close>, once from the configured domain, once from another
  origin and once without an origin.
\<close>

theorem cors_headers_iff_origin_matches_witness:
  "request_method (get_request [(''search'', ''ab'')] (Some ''https://zip.example'')) = ''GET''
   \<and> DOMAIN sample_env \<noteq> []
   \<and> map_sum id status (fst (fetch cold_world
         (get_request [(''search'', ''ab'')] (Some ''https://zip.example'')) sample_env)) = Inr 200
   \<and> map_sum id has_access_control_header (fst (fetch cold_world
         (get_request [(''search'', ''ab'')] (Some ''https://zip.example'')) sample_env)) = Inr True
   \<and> map_sum id has_access_control_header (fst (fetch cold_world
         (get_request [(''search'', ''ab'')] (Some ''https://evil.example'')) sample_env)) = Inr False
   \<and> map_sum id has_access_control_header (fst (fetch cold_world
         (get_request [(''search'', ''ab'')] None) sample_env)) = Inr False"
proof -
  define good where "good = get_request [(''search'', ''ab'')] (Some ''https://zip.example'')"
  define evil where "evil = get_request [(''search'', ''ab'')] (Some ''https://evil.example'')"
  define anon where "anon = get_request [(''search'', ''ab'')] None"
  have mg: "request_method good = ''GET''" and me: "request_method evil = ''GET''"
    and ma: "request_method anon = ''GET''"
    by (simp_all add: good_def evil_def anon_def get_request_def)
  have dom: "DOMAIN sample_env \<noteq> []"
    by (simp add: sample_env_def)
  then have side: "DOMAIN sample_env \<noteq> [] \<or> origin_header x \<noteq> Some []" for x :: Request
    by simp
  have short: "detectEdgeCases [(''search'', ''ab'')] = Inr JSNull"
    by (simp add: detectEdgeCases_def params_get_def Let_def)
  have dom_eq: "DOMAIN sample_env = ''https://zip.example''"
    by (simp add: sample_env_def)
  have pg: "params good = [(''search'', ''ab'')]" and pe: "params evil = [(''search'', ''ab'')]"
    and pa: "params anon = [(''search'', ''ab'')]"
    by (simp_all add: good_def evil_def anon_def get_request_def)
  have hg: "hasValidOrigin good sample_env" and he: "\<not> hasValidOrigin evil sample_env"
    and ha: "\<not> hasValidOrigin anon sample_env"
    by (simp_all add: hasValidOrigin_def dom_eq good_def evil_def anon_def get_request_def)
  have fg: "fst (fetch cold_world good sample_env)
      = Inr (buildResultsResponse (JArr []) (Some ''https://zip.example'') (Num 600))"
    by (simp add: fetch_get[OF mg] pg short hg dom_eq sample_ttl)
  have fe: "fst (fetch cold_world evil sample_env)
      = Inr (buildResultsResponse (JArr []) None (Num 600))"
    by (simp add: fetch_get[OF me] pe short he sample_ttl)
  have fa: "fst (fetch cold_world anon sample_env)
      = Inr (buildResultsResponse (JArr []) None (Num 600))"
    by (simp add: fetch_get[OF ma] pa short ha sample_ttl)
  have og: "origin_header good = Some (DOMAIN sample_env)"
    by (simp add: good_def get_request_def sample_env_def)
  have oe: "origin_header evil \<noteq> Some (DOMAIN sample_env)"
    by (simp add: evil_def get_request_def sample_env_def)
  have oa: "origin_header anon \<noteq> Some (DOMAIN sample_env)"
    by (simp add: anon_def get_request_def)
  from cors_headers_iff_origin_matches[OF mg fg buildResultsResponse_status side] og
  have g: "has_access_control_header
      (buildResultsResponse (JArr []) (Some ''https://zip.example'') (Num 600))"
    by blast
  from cors_headers_iff_origin_matches[OF me fe buildResultsResponse_status side] oe
  have e: "\<not> has_access_control_header (buildResultsResponse (JArr []) None (Num 600))"
    by blast
  from cors_headers_iff_origin_matches[OF ma fa buildResultsResponse_status side] oa
  have a: "\<not> has_access_control_header (buildResultsResponse (JArr []) None (Num 600))"
    by blast
  from g e a show ?thesis
    using mg dom fg fe fa
    by (simp add: good_def evil_def anon_def buildResultsResponse_status)
qed

section \<open>The cache\<close>

lemma fetch_not_get: "request_method request \<noteq> ''GET'' \<Longrightarrow> snd (fetch w request env) = []"
  by (simp add: fetch_def Let_def)


text \<open>
  A store is the last thing the handler does, after a lookup that missed, and what it
  stores is the response it returns, built by \<open>buildResultsResponse\<close>.
\<close>

lemma put_event_response:
  assumes "CachePut k r \<in> set (snd (fetch w request env))"
  shows "fst (fetch w request env) = Inr r \<and> cache_match w k = None
       \<and> (\<exists>results. r = buildResultsResponse results
             (if hasValidOrigin request env then Some (DOMAIN env) else None) (cacheTtlOf env))"
proof -
  have g: "request_method request = ''GET''"
  proof (rule ccontr)
    assume "request_method request \<noteq> ''GET''"
    from fetch_not_get[OF this, of w env] assms show False by simp
  qed
  show ?thesis
    using assms
    by (auto simp: fetch_get[OF g] Let_def split: sum.splits null_or_undefined.splits option.splits)
qed




section \<open>Failures\<close>

lemma backend_event_in_trace:
  assumes "request_method request = ''GET''"
    and "BackendSearch t a u \<in> set (snd (fetch w request env))"
  shows "fst (fetch w request env) =
     (case searchZipCodes (mongo w) t a u of
        Inl e \<Rightarrow> Inr (buildResponse 500 (Some ''Internal Server Error'') None)
      | Inr results \<Rightarrow> Inr (buildResultsResponse (results_json results)
           (if hasValidOrigin request env then Some (DOMAIN env) else None) (cacheTtlOf env)))"
  using assms
  by (auto simp: fetch_get Let_def split: sum.splits null_or_undefined.splits option.splits)

text \<open>
  Claim C7. \<open>processResults\<close> fails with \<open>Unexpected function call\<close> exactly when it is
  given no response. Given a response, it fails exactly when the body does not parse, and
  then with \<open>Invalid response\<close> and no other error. And whenever the handler has called
  \<open>searchZipCodes\<close> and the call failed, whatever the failure, the answer is the 500
  response.
\<close>

theorem failures_of_parsing_and_search:
  "(processResults parse response = Inl UnexpectedCall \<longleftrightarrow> response = None)
   \<and> (processResults parse (Some r) = Inl InvalidResponse \<longleftrightarrow> response_json parse r = None)
   \<and> (\<forall>e. processResults parse (Some r) = Inl e \<longrightarrow> e = InvalidResponse)
   \<and> (\<forall>e. BackendSearch t a u \<in> set (snd (fetch w request env))
          \<longrightarrow> searchZipCodes (mongo w) t a u = Inl e
          \<longrightarrow> fst (fetch w request env)
                = Inr (buildResponse 500 (Some ''Internal Server Error'') None)
              \<and> map_sum id status (fst (fetch w request env)) = Inr 500)"
proof -
  have a: "processResults parse response = Inl UnexpectedCall \<longleftrightarrow> response = None"
    by (simp add: processResults_def split: option.split)
  have b: "processResults parse (Some r) = Inl InvalidResponse \<longleftrightarrow> response_json parse r = None"
    by (simp add: processResults_def split: option.split)
  have c: "\<forall>e. processResults parse (Some r) = Inl e \<longrightarrow> e = InvalidResponse"
    by (simp add: processResults_def split: option.split)
  have d: "fst (fetch w request env) = Inr (buildResponse 500 (Some ''Internal Server Error'') None)
              \<and> map_sum id status (fst (fetch w request env)) = Inr 500"
    if "BackendSearch t a u \<in> set (snd (fetch w request env))"
      and "searchZipCodes (mongo w) t a u = Inl e" for e
  proof -
    have g: "request_method request = ''GET''"
    proof (rule ccontr)
      assume "request_method request \<noteq> ''GET''"
      from fetch_not_get[OF this, of w env] that(1) show False by simp
    qed
    show ?thesis
      using backend_event_in_trace[OF g that(1)] that(2) by (simp add: buildResponse_def)
  qed
  from a b c d show ?thesis by blast
qed

text \<open>The theorem at \<open>GET /?search=springfield\<close> with a database that cannot be reached.\<close>

theorem failures_of_parsing_and_search_witness:
  "processResults (json_parse failing_world) None = Inl UnexpectedCall
   \<and> BackendSearch ''springfield'' False ''mongodb://db.example/zip''
       \<in> set (snd (fetch failing_world (get_request [(''search'', ''springfield'')] None) sample_env))
   \<and> searchZipCodes (mongo failing_world) ''springfield'' False ''mongodb://db.example/zip''
       = Inl DatabaseQueryFailed
   \<and> map_sum id status (fst (fetch failing_world (get_request [(''search'', ''springfield'')] None)
         sample_env)) = Inr 500"
proof -
  have s: "searchZipCodes (mongo failing_world) ''springfield'' False ''mongodb://db.example/zip''
       = Inl DatabaseQueryFailed"
    by (simp add: searchZipCodes_def failing_world_def unreachable_mongo_def)
  have t: "BackendSearch ''springfield'' False ''mongodb://db.example/zip''
       \<in> set (snd (fetch failing_world (get_request [(''search'', ''springfield'')] None) sample_env))"
    by (simp add: fetch_def get_request_def detectEdgeCases_def params_get_def Let_def
        failing_world_def unreachable_mongo_def buildSearchQuery_def getCacheKey_def
        searchZipCodes_def sample_env_def)
  from failures_of_parsing_and_search[where parse = "json_parse failing_world"
      and response = None and w = failing_world
      and request = "get_request [(''search'', ''springfield'')] None"
      and env = sample_env and t = "''springfield''" and a = False
      and u = "''mongodb://db.example/zip''" and r = sample_entry] s t
  show ?thesis by blast
qed

section \<open>The search in the database\<close>

lemma project_name_zip_only:
  "kv \<in> set (project [(''_id'', 0), (''name'', 1), (''zip'', 1)] d)
     \<Longrightarrow> fst kv = ''name'' \<or> fst kv = ''zip''"
  by (auto simp: project_def project_field_def split: if_splits)

lemma cursor_limit_length: "0 < n \<Longrightarrow> length (cursor_limit n xs) \<le> n"
  by (simp add: cursor_limit_def)

text \<open>
  Claim C8. Whatever the search term and whatever the database holds, a list returned by
  \<open>searchZipCodes\<close> has at most 10 elements for an autocomplete search and at most 50
  otherwise, and no element has a field other than \<open>zip\<close> and \<open>name\<close>.
\<close>

theorem search_results_limited_and_projected:
  assumes "searchZipCodes client searchTerm isAutocomplete mongoUri = Inr rs"
  shows "length rs \<le> (if isAutocomplete then 10 else 50)
       \<and> (\<forall>d \<in> set rs. \<forall>k \<in> fst ` set d. k = ''zip'' \<or> k = ''name'')"
proof -
  obtain found
    where rs: "rs = cursor_limit (if isAutocomplete then 10 else 50)
                   (map (project [(''_id'', 0), (''name'', 1), (''zip'', 1)]) found)"
    using assms
    by (auto simp: searchZipCodes_def Let_def split: if_splits option.splits)
  have len: "length rs \<le> (if isAutocomplete then 10 else 50)"
    unfolding rs by (rule cursor_limit_length) simp
  have "set rs \<subseteq> set (map (project [(''_id'', 0), (''name'', 1), (''zip'', 1)]) found)"
    unfolding rs cursor_limit_def by (auto dest: in_set_takeD)
  then have fields: "\<forall>d \<in> set rs. \<forall>k \<in> fst ` set d. k = ''zip'' \<or> k = ''name''"
    using project_name_zip_only by fastforce
  from len fields show ?thesis by blast
qed

text \<open>
  The theorem at an autocomplete search that matches twelve documents, and at a full search
  that matches two documents with fields beyond \<open>zip\<close> and \<open>name\<close>.
\<close>

theorem search_results_limited_and_projected_witness:
  "searchZipCodes crowded_mongo ''spring'' True ''mongodb://db.example/zip''
     = Inr (replicate 10 [(''name'', JStr ''Springfield''), (''zip'', JStr ''01001'')])
   \<and> length (replicate 10 [(''name'', JStr ''Springfield''), (''zip'', JStr ''01001'')]) \<le> (10::nat)
   \<and> searchZipCodes sample_mongo ''spring'' False ''mongodb://db.example/zip''
     = Inr [[(''name'', JStr ''Springfield''), (''zip'', JStr ''01001'')],
            [(''zip'', JStr ''62701''), (''name'', JStr ''Springfield'')]]"
proof -
  have a: "searchZipCodes crowded_mongo ''spring'' True ''mongodb://db.example/zip''
     = Inr (replicate 10 [(''name'', JStr ''Springfield''), (''zip'', JStr ''01001'')])"
    by (simp add: searchZipCodes_def crowded_mongo_def sample_documents_def cursor_limit_def
        project_def project_field_def Let_def min_def)
  have b: "searchZipCodes sample_mongo ''spring'' False ''mongodb://db.example/zip''
     = Inr [[(''name'', JStr ''Springfield''), (''zip'', JStr ''01001'')],
            [(''zip'', JStr ''62701''), (''name'', JStr ''Springfield'')]]"
    by (simp add: searchZipCodes_def sample_mongo_def sample_documents_def cursor_limit_def
        project_def project_field_def Let_def)
  from search_results_limited_and_projected[OF a] search_results_limited_and_projected[OF b] a b
  show ?thesis by simp
qed

section \<open>The cache TTL\<close>

lemma digits_value_snoc: "digits_value (s @ [c]) = 10 * digits_value s + digit_value c"
  by (simp add: digits_value_def)

lemma decimal_value_snoc: "decimal_value (s @ [c]) = 10 * decimal_value s + digit_value c"
proof -
  have "(\<Sum>i < length s. digit_value ((s @ [c]) ! i) * 10 ^ (length s - i))
      = (\<Sum>i < length s. 10 * (digit_value (s ! i) * 10 ^ (length s - Suc i)))"
  proof (rule sum.cong)
    fix i assume "i \<in> {..<length s}"
    then have i: "i < length s" by simp
    then have "length s - i = Suc (length s - Suc i)" by arith
    with i show "digit_value ((s @ [c]) ! i) * 10 ^ (length s - i)
        = 10 * (digit_value (s ! i) * 10 ^ (length s - Suc i))"
      by (simp add: nth_append)
  qed simp
  then show ?thesis
    by (simp add: decimal_value_def sum_distrib_left)
qed

text \<open>The left-to-right accumulation of \<open>parseInt\<close> computes the positional value.\<close>

lemma digits_value_decimal: "digits_value s = decimal_value s"
proof (induction s rule: rev_induct)
  case Nil
  show ?case by (simp add: digits_value_def decimal_value_def)
next
  case (snoc c s)
  then show ?case by (simp add: digits_value_snoc decimal_value_snoc)
qed

lemma digit_not_space: "is_digit c \<Longrightarrow> \<not> is_white_space c"
  by (auto simp: is_digit_def is_white_space_def)

lemma digit_not_sign: "is_digit c \<Longrightarrow> c \<noteq> CHR ''+'' \<and> c \<noteq> CHR ''-''"
  by (auto simp: is_digit_def)

text \<open>Below \<open>2 ^ 53\<close> nothing is rounded.\<close>

lemma bit_length_bound: "n < 2 ^ k \<Longrightarrow> bit_length n \<le> k"
proof (induction k arbitrary: n)
  case 0
  then have "n = 0" by simp
  then show ?case by simp
next
  case (Suc k)
  show ?case
  proof (cases "n = 0")
    case True
    then show ?thesis by simp
  next
    case False
    from Suc.prems have "n div 2 < 2 ^ k" by simp
    then have "bit_length (n div 2) \<le> k" by (rule Suc.IH)
    moreover have "bit_length n = Suc (bit_length (n div 2))"
      using False by (subst bit_length.simps) simp
    ultimately show ?thesis by simp
  qed
qed

lemma round_to_double_exact: "n < 2 ^ 53 \<Longrightarrow> round_to_double n = Some n"
  using bit_length_bound[of n 53] by (simp add: round_to_double_def)

lemma parseInt_valid:
  assumes "valid_nonneg_integer s"
  shows "parseInt s
       = (case round_to_double (decimal_value s) of
            None \<Rightarrow> Infinity
          | Some d \<Rightarrow> Num (int d))"
proof -
  from assms obtain d ds where s: "s = d # ds" and d: "is_digit d"
    and all: "\<forall>c \<in> set s. is_digit c"
    by (cases s) (auto simp: valid_nonneg_integer_def list_all_iff)
  have dw: "dropWhile is_white_space s = d # ds"
    using digit_not_space[OF d] by (simp add: s)
  have tw: "takeWhile is_digit (d # ds) = s"
    using all unfolding s by (simp only: takeWhile_eq_all_conv)
  show ?thesis
    unfolding parseInt_def Let_def dw
    using digit_not_sign[OF d]
    by (simp add: tw digits_value_decimal s del: takeWhile.simps split: option.split)
qed

lemma parseInt_no_leading:
  assumes "\<not> leading_integer s"
  shows "parseInt s = NaN"
proof (cases "dropWhile is_white_space s")
  case Nil
  then show ?thesis
    by (simp add: parseInt_def del: dropWhile_eq_Nil_conv)
next
  case (Cons c r)
  show ?thesis
    using assms
    by (cases r) (auto simp: leading_integer_def parseInt_def Let_def Cons split: if_splits)
qed

text \<open>
  Claim C5, as the code has it. The default of 300 is taken when \<open>parseInt\<close> yields \<open>NaN\<close>,
  and it does so for every configured string without a leading integer. For a valid
  non-negative integer string that denotes a number below \<open>2 ^ 53\<close> the TTL is that number;
  from there on it is the nearest double. This TTL is the one printed into the
  \<open>cache-control\<close> header of every 200 answer to a GET request and of every response handed
  to the cache, and below \<open>2 ^ 53\<close> it is printed as its decimal digits.
\<close>

theorem cache_ttl_of_configuration:
  "(\<not> leading_integer s \<longrightarrow> cacheTtlOf (env\<lparr>CACHE_TTL := s\<rparr>) = Num 300)
   \<and> (valid_nonneg_integer s \<and> decimal_value s < 2 ^ 53
        \<longrightarrow> cacheTtlOf (env\<lparr>CACHE_TTL := s\<rparr>) = Num (int (decimal_value s)))
   \<and> (valid_nonneg_integer s
        \<longrightarrow> cacheTtlOf (env\<lparr>CACHE_TTL := s\<rparr>)
            = (case round_to_double (decimal_value s) of
                 None \<Rightarrow> Infinity
               | Some d \<Rightarrow> Num (int d)))
   \<and> (request_method request = ''GET'' \<and> fst (fetch w request env) = Inr resp \<and> status resp = 200
       \<longrightarrow> map_of (headers resp) ''cache-control''
            = Some (''public, maxage='' @ number_to_string (cacheTtlOf env) @ '', immutable''))
   \<and> (CachePut k stored \<in> set (snd (fetch w request env))
       \<longrightarrow> map_of (headers stored) ''cache-control''
            = Some (''public, maxage='' @ number_to_string (cacheTtlOf env) @ '', immutable''))
   \<and> (n < 2 ^ 53 \<longrightarrow> number_to_string (Num (int n)) = nat_to_string n)"
proof -
  have a: "cacheTtlOf (env\<lparr>CACHE_TTL := s\<rparr>) = Num 300" if "\<not> leading_integer s"
    using parseInt_no_leading[OF that] by (simp add: cacheTtlOf_def)
  have c: "cacheTtlOf (env\<lparr>CACHE_TTL := s\<rparr>)
            = (case round_to_double (decimal_value s) of
                 None \<Rightarrow> Infinity
               | Some d \<Rightarrow> Num (int d))"
    if "valid_nonneg_integer s"
    using parseInt_valid[OF that] by (simp add: cacheTtlOf_def split: option.split)
  have b: "cacheTtlOf (env\<lparr>CACHE_TTL := s\<rparr>) = Num (int (decimal_value s))"
    if "valid_nonneg_integer s" "decimal_value s < 2 ^ 53"
    using c[OF that(1)] round_to_double_exact[OF that(2)] by simp
  have d: "map_of (headers resp) ''cache-control''
            = Some (''public, maxage='' @ number_to_string (cacheTtlOf env) @ '', immutable'')"
    if "request_method request = ''GET''" "fst (fetch w request env) = Inr resp" "status resp = 200"
    using fetch_get_200[OF that] by (auto simp: cache_control_of_results_response)
  have e: "map_of (headers stored) ''cache-control''
            = Some (''public, maxage='' @ number_to_string (cacheTtlOf env) @ '', immutable'')"
    if "CachePut k stored \<in> set (snd (fetch w request env))"
    using put_event_response[OF that] by (auto simp: cache_control_of_results_response)
  have f: "number_to_string (Num (int n)) = nat_to_string n" if "n < 2 ^ 53"
    using that by (simp add: number_to_string_def double_to_string_def)
  from a b c d e f show ?thesis by blast
qed

text \<open>The theorem at \<open>never\<close> and at \<open>600\<close>.\<close>

theorem cache_ttl_of_configuration_witness:
  "\<not> leading_integer ''never''
   \<and> cacheTtlOf (sample_env\<lparr>CACHE_TTL := ''never''\<rparr>) = Num 300
   \<and> valid_nonneg_integer ''600''
   \<and> decimal_value ''600'' = 600
   \<and> decimal_value ''600'' < 2 ^ 53
   \<and> cacheTtlOf (sample_env\<lparr>CACHE_TTL := ''600''\<rparr>) = Num 600
   \<and> number_to_string (Num 600) = ''600''"
proof -
  have n: "\<not> leading_integer ''never''"
    by (simp add: leading_integer_def is_white_space_def is_digit_def)
  have v: "valid_nonneg_integer ''600''"
    by (simp add: valid_nonneg_integer_def is_digit_def)
  have d: "decimal_value ''600'' = 600"
    by (simp add: decimal_value_def digit_value_def lessThan_Suc numeral_3_eq_3)
  have small: "decimal_value ''600'' < 2 ^ 53" "(600::nat) < 2 ^ 53"
    by (simp_all add: d)
  have digits: "nat_to_string 600 = ''600''"
    by code_simp
  from cache_ttl_of_configuration[where s = "''never''" and env = sample_env] n
  have t1: "cacheTtlOf (sample_env\<lparr>CACHE_TTL := ''never''\<rparr>) = Num 300" by blast
  from cache_ttl_of_configuration[where s = "''600''" and env = sample_env] v small(1)
  have "cacheTtlOf (sample_env\<lparr>CACHE_TTL := ''600''\<rparr>) = Num (int (decimal_value ''600''))"
    by blast
  then have t2: "cacheTtlOf (sample_env\<lparr>CACHE_TTL := ''600''\<rparr>) = Num 600"
    by (simp add: d)
  from cache_ttl_of_configuration[where n = 600] small(2)
  have "number_to_string (Num (int 600)) = nat_to_string 600" by blast
  then have t3: "number_to_string (Num 600) = ''600''"
    unfolding digits by simp
  from n v d small(1) t1 t2 t3 show ?thesis by blast
qed

text \<open>
  Claim C5 as stated fails on \<open>9007199254740993\<close>, a valid non-negative integer string for
  which the TTL is \<open>9007199254740992\<close>, and on \<open>-5\<close>, which is no valid non-negative
  integer string and for which the default is not taken.
\<close>

lemma round_to_double_odd: "round_to_double 9007199254740993 = Some 9007199254740992"
  by (simp add: round_to_double_def Let_def)

lemma round_to_double_5: "round_to_double 5 = Some 5"
  by (simp add: round_to_double_def)

theorem ttl_string_not_honoured:
  "valid_nonneg_integer ''9007199254740993''
   \<and> decimal_value ''9007199254740993'' = 9007199254740993
   \<and> cacheTtlOf (sample_env\<lparr>CACHE_TTL := ''9007199254740993''\<rparr>) = Num 9007199254740992
   \<and> \<not> valid_nonneg_integer ''-5''
   \<and> cacheTtlOf (sample_env\<lparr>CACHE_TTL := ''-5''\<rparr>) \<noteq> Num 300"
proof -
  have v: "valid_nonneg_integer ''9007199254740993''"
    by (simp add: valid_nonneg_integer_def is_digit_def)
  have d: "decimal_value ''9007199254740993'' = 9007199254740993"
    unfolding digits_value_decimal[symmetric]
    by (simp add: digits_value_def digit_value_def)
  have t: "cacheTtlOf (sample_env\<lparr>CACHE_TTL := ''9007199254740993''\<rparr>) = Num 9007199254740992"
    using parseInt_valid[OF v] by (simp add: cacheTtlOf_def d round_to_double_odd)
  have n: "\<not> valid_nonneg_integer ''-5''"
    by (simp add: valid_nonneg_integer_def is_digit_def)
  have m: "cacheTtlOf (sample_env\<lparr>CACHE_TTL := ''-5''\<rparr>) = Num (- 5)"
    by (simp add: cacheTtlOf_def parseInt_def is_white_space_def is_digit_def digits_value_def
        digit_value_def round_to_double_5 Let_def)
  from v d t n m show ?thesis by simp
qed

end
